theory Spec2Isabelle
  imports Main
begin

section \<open>Data model\<close>

text \<open>
  A path is an ordered sequence of segments. A segment is a keyed segment
  \<^verbatim>\<open>{_key: k}\<close>, a property name, or an array index.
\<close>

datatype segment = Key string | Name string | Index nat

type_synonym path = "segment list"

text \<open>
  Modelled from the spec: \<^verbatim>\<open>isKeySegment\<close>, imported from \<^verbatim>\<open>@sanity/types\<close>, whose source is
  not part of the files at hand. It is the type guard of the keyed segment
  (\<^verbatim>\<open>segment is KeyedSegment\<close>): true of a segment \<^verbatim>\<open>{_key: k}\<close> and of nothing else.
  JavaScript reads past the end of an array as \<^verbatim>\<open>undefined\<close>, which is not a keyed
  segment. \<open>segment_key\<close> is the field read \<^verbatim>\<open>segment._key\<close>: a string or a number has
  no such field.
\<close>

fun isKeySegment :: "segment option \<Rightarrow> bool" where
  "isKeySegment (Some (Key k)) = True"
| "isKeySegment _ = False"

fun segment_key :: "segment option \<Rightarrow> string option" where
  "segment_key (Some (Key k)) = Some k"
| "segment_key _ = None"

text \<open>\<^verbatim>\<open>xs[i]\<close>: \<^verbatim>\<open>undefined\<close> out of range.\<close>

definition at :: "'a list \<Rightarrow> nat \<Rightarrow> 'a option" where
  "at xs i = (if i < length xs then Some (xs ! i) else None)"

text \<open>\<^verbatim>\<open>xs.slice(a, b)\<close> for indices that are not negative.\<close>

definition slice :: "'a list \<Rightarrow> nat \<Rightarrow> nat \<Rightarrow> 'a list" where
  "slice xs a b = take (b - a) (drop a xs)"

text \<open>\<^verbatim>\<open>xs.slice(-1)[0]\<close>: the last element, \<^verbatim>\<open>undefined\<close> for an empty array.\<close>

definition last_segment :: "'a list \<Rightarrow> 'a option" where
  "last_segment xs = (case xs of [] \<Rightarrow> None | _ \<Rightarrow> Some (last xs))"

record point =
  path :: path
  offset :: nat

record selection =
  focus :: point
  anchor :: point

text \<open>The selection literal \<^verbatim>\<open>{focus: {path, offset: 0}, anchor: {path, offset: 0}}\<close>.\<close>

definition collapsedAt :: "path \<Rightarrow> selection" where
  "collapsedAt p = \<lparr>focus = \<lparr>path = p, offset = 0\<rparr>, anchor = \<lparr>path = p, offset = 0\<rparr>\<rparr>"

datatype kind = blockObject | inlineObject | annotation

record ObjectEditData =
  editorPath :: path
  formBuilderPath :: path
  kind :: kind

text \<open>
  Blocks and their children as the editor value holds them. A field that an object
  lacks is \<open>None\<close>: an object block has no \<^verbatim>\<open>children\<close>, an inline object has no
  \<^verbatim>\<open>marks\<close> array and no \<^verbatim>\<open>text\<close> (field \<open>child_text\<close>).
\<close>

record child =
  child_type :: string
  child_key :: string
  child_text :: "string option"
  marks :: "string list option"

record markDef =
  markDef_type :: string
  markDef_key :: string

record block =
  block_type :: string
  block_key :: string
  style :: "string option"
  markDefs :: "markDef list option"
  children :: "child list option"

text \<open>Opaque payloads (patch values, node contents).\<close>

datatype json =
  JNull | JBool bool | JNum int | JStr string | JArr "json list" | JObj "(string \<times> json) list"

record patch =
  patch_path :: path
  patch_type :: string
  patch_value :: "json option"

record PatchEvent =
  patches :: "patch list"

section \<open>The object-editing orchestrator (PortableTextInput)\<close>

text \<open>
  Calls the component makes to its collaborators, in the order it makes them: the
  editor facade (\<^verbatim>\<open>PortableTextEditor.select/focus\<close>), the external handlers
  (\<^verbatim>\<open>onFocus\<close>, \<^verbatim>\<open>onChange\<close>, \<^verbatim>\<open>patche$.next\<close>) and the DOM lookup of the popover anchor.
\<close>

datatype call =
    SetPopupReferenceElement "string option"
  | EditorSelect selection
  | EditorFocus
  | OnFocus path
  | PatcheNext patch
  | OnChange PatchEvent

text \<open>
  The three React states of the component, the callbacks handed to \<^verbatim>\<open>setTimeout\<close> that
  have not run yet (each sets \<^verbatim>\<open>objectEditData\<close>), and the log of calls.
\<close>

record orch =
  isActive :: bool
  objectEditData :: "ObjectEditData option"
  initialSelection :: "selection option"
  timeouts :: "ObjectEditData list"
  calls :: "call list"

datatype error = TypeError

text \<open>\<^verbatim>\<open>Array.isArray(child.marks) && child.marks.includes(key)\<close>\<close>

definition marksInclude :: "string \<Rightarrow> child \<Rightarrow> bool" where
  "marksInclude k c = (case marks c of None \<Rightarrow> False | Some ms \<Rightarrow> k \<in> set ms)"

text \<open>
  The branch for annotation focus paths of the focus-path effect. It is entered when
  the second segment is \<^verbatim>\<open>'markDefs'\<close> and the first one is a keyed segment with key
  \<open>bk\<close>; it always returns from the effect. \<^verbatim>\<open>block.children.find\<close> throws when the
  block has no \<^verbatim>\<open>children\<close>.
\<close>

definition annotationFocus :: "path \<Rightarrow> string \<Rightarrow> block list option \<Rightarrow> orch \<Rightarrow> error + orch" where
  "annotationFocus focusPath bk editorValue s =
     (case find (\<lambda>blk. block_key blk = bk) (case editorValue of None \<Rightarrow> [] | Some v \<Rightarrow> v) of
        None \<Rightarrow> Inr s
      | Some blk \<Rightarrow>
          (case at focusPath 2 of
             Some (Key mk) \<Rightarrow>
               (case children blk of
                  None \<Rightarrow> Inl TypeError
                | Some cs \<Rightarrow>
                    (case find (marksInclude mk) cs of
                       None \<Rightarrow> Inr s
                     | Some span \<Rightarrow>
                         (let spanPath = [Key bk, Name ''children'', Key (child_key span)] in
                          Inr (s\<lparr>isActive := True,
                                 objectEditData := Some \<lparr>editorPath = spanPath,
                                   formBuilderPath = slice focusPath 0 3, kind = annotation\<rparr>,
                                 calls := calls s @
                                   [SetPopupReferenceElement (Some (child_key span)),
                                    EditorSelect (collapsedAt spanPath)]\<rparr>))))
           | _ \<Rightarrow> Inr s))"

text \<open>The branch for block focus paths of the same effect.\<close>

definition blockFocus :: "path \<Rightarrow> orch \<Rightarrow> orch" where
  "blockFocus focusPath s =
     (let isChild = (at focusPath 1 = Some (Name ''children'')) in
      if (isChild \<and> length focusPath > 3) \<or> (\<not> isChild \<and> length focusPath > 1) then
        (let kind = (if isChild then inlineObject else blockObject);
             path = (if isChild then slice focusPath 0 1 @ slice focusPath 1 3
                     else slice focusPath 0 1)
         in s\<lparr>isActive := True,
               timeouts := timeouts s @
                 [\<lparr>editorPath = path, formBuilderPath = path, kind = kind\<rparr>],
               calls := calls s @
                 [SetPopupReferenceElement (segment_key (last_segment path)),
                  EditorSelect (collapsedAt path)]\<rparr>)
      else s)"

text \<open>
  The effect that runs when \<^verbatim>\<open>focusPath\<close> changes. \<open>editorValue\<close> is what
  \<^verbatim>\<open>PortableTextEditor.getValue(editor)\<close> returns.
\<close>

definition focusPathEffect :: "path option \<Rightarrow> block list option \<Rightarrow> orch \<Rightarrow> error + orch" where
  "focusPathEffect focusPath editorValue s =
     (case focusPath of
        None \<Rightarrow> Inr s
      | Some fp \<Rightarrow>
          if objectEditData s = None then
            (if at fp 1 = Some (Name ''markDefs'') \<and> isKeySegment (at fp 0) then
               (case at fp 0 of
                  Some (Key bk) \<Rightarrow> annotationFocus fp bk editorValue s
                | _ \<Rightarrow> Inr s)
             else Inr (blockFocus fp s))
          else Inr s)"

text \<open>One scheduling tick: the pending \<^verbatim>\<open>setTimeout\<close> callbacks run, oldest first.\<close>

definition tick :: "orch \<Rightarrow> orch" where
  "tick s = foldl (\<lambda>s' d. s'\<lparr>objectEditData := Some d\<rparr>) (s\<lparr>timeouts := []\<rparr>) (timeouts s)"

text \<open>The effect that runs on a new editor selection.\<close>

definition selectionEffect :: "path option \<Rightarrow> selection option \<Rightarrow> orch \<Rightarrow> orch" where
  "selectionEffect focusPath sel s =
     (let isAnnotationPath =
            (case focusPath of None \<Rightarrow> False | Some fp \<Rightarrow> at fp 1 = Some (Name ''markDefs''))
      in case sel of
           None \<Rightarrow> s
         | Some sl \<Rightarrow>
             if objectEditData s = None \<and> \<not> isAnnotationPath then
               (let isCollapsed = (path (focus sl) = path (anchor sl)
                                   \<and> offset (focus sl) = offset (anchor sl))
                in if isCollapsed \<and> focusPath \<noteq> Some (path (focus sl))
                   then s\<lparr>calls := calls s @ [OnFocus (path (focus sl))]\<rparr>
                   else s)
             else s)"

text \<open>
  Modelled from the spec: \<^verbatim>\<open>PatchEvent.prefixAll\<close>, whose source is not part of the
  files at hand. The event is "prefixed with" a segment: the segment is put in front
  of the path of each of its patches.
\<close>

definition prefixAll :: "segment \<Rightarrow> PatchEvent \<Rightarrow> PatchEvent" where
  "prefixAll seg ev =
     ev\<lparr>patches := map (\<lambda>p. p\<lparr>patch_path := seg # patch_path p\<rparr>) (patches ev)\<rparr>"

text \<open>
  \<^verbatim>\<open>path.slice(0).reverse().forEach(segment => _patchEvent = _patchEvent.prefixAll(segment))\<close>,
  then each patch goes to \<^verbatim>\<open>patche$\<close> and the event to \<^verbatim>\<open>onChange\<close>.
\<close>

definition prefixedEvent :: "PatchEvent \<Rightarrow> path \<Rightarrow> PatchEvent" where
  "prefixedEvent patchEvent p = foldl (\<lambda>ev seg. prefixAll seg ev) patchEvent (rev p)"

definition handleFormBuilderEditObjectChange :: "PatchEvent \<Rightarrow> path \<Rightarrow> orch \<Rightarrow> orch" where
  "handleFormBuilderEditObjectChange patchEvent p s =
     (let ev = prefixedEvent patchEvent p
      in s\<lparr>calls := calls s @ map PatcheNext (patches ev) @ [OnChange ev]\<rparr>)"




section \<open>The editable surface (PortableTextEditable)\<close>

text \<open>
  The \<^verbatim>\<open>value\<close> the component receives: \<^verbatim>\<open>undefined\<close>, an array of blocks, or (the
  parameter of \<^verbatim>\<open>getValueOrInitialValue\<close> is \<^verbatim>\<open>unknown\<close>) something that is not an array,
  of which only its truthiness matters.
\<close>

datatype docvalue = Undefined | NonArray bool | Blocks "block list"

fun truthy :: "docvalue \<Rightarrow> bool" where
  "truthy Undefined = False"
| "truthy (NonArray b) = b"
| "truthy (Blocks bs) = True"

fun isArray :: "docvalue \<Rightarrow> bool" where
  "isArray (Blocks bs) = True"
| "isArray _ = False"

definition getValueOrInitialValue :: "docvalue \<Rightarrow> block list \<Rightarrow> block list" where
  "getValueOrInitialValue value initialValue =
     (case value of
        Blocks bs \<Rightarrow> if truthy value \<and> isArray value \<and> length bs > 0 then bs else initialValue
      | _ \<Rightarrow> initialValue)"

text \<open>
  The placeholder block. \<open>blockTypeName\<close> is \<^verbatim>\<open>blockType.name\<close>, \<open>style0\<close> is
  \<^verbatim>\<open>portableTextFeatures.styles[0].value\<close>, and \<open>k1\<close>, \<open>k2\<close> are what the two calls of
  \<^verbatim>\<open>keyGenerator()\<close> return, in the order of the calls.
\<close>

definition placeHolderBlock :: "string \<Rightarrow> string \<Rightarrow> string \<Rightarrow> string \<Rightarrow> block" where
  "placeHolderBlock blockTypeName style0 k1 k2 =
     \<lparr>block_type = blockTypeName, block_key = k1, style = Some style0, markDefs = Some [],
      children = Some [\<lparr>child_type = ''span'', child_key = k2, child_text = Some '''',
                         marks = Some []\<rparr>]\<rparr>"

text \<open>
  A node of the internal engine is a JavaScript object: it has an identity (\<open>ident\<close>,
  which \<^verbatim>\<open>===\<close> compares) and a content (which lodash's deep \<^verbatim>\<open>isEqual\<close> compares).
\<close>

record node =
  ident :: nat
  content :: json

definition isEqual :: "node \<Rightarrow> node \<Rightarrow> bool" where
  "isEqual n m = (content n = content m)"

text \<open>
  \<^verbatim>\<open>xs.splice(start, deleteCount, ...items)\<close> for a start that is not negative: the start
  is clamped to the length, the count to what is left after the start.
\<close>

definition splice :: "'a list \<Rightarrow> nat \<Rightarrow> int \<Rightarrow> 'a list \<Rightarrow> 'a list" where
  "splice xs start deleteCount items =
     (let st = min start (length xs);
          dc = min (nat (max 0 deleteCount)) (length xs - st)
      in take st xs @ items @ drop (st + dc) xs)"

record editable =
  isComposing :: bool
  slate_children :: "node list"
  onChange_calls :: nat

text \<open>
  The \<^verbatim>\<open>forEach\<close> over \<^verbatim>\<open>slateValueFromProps\<close> of the effect that restores the value
  from props, from index \<open>i\<close> on.
\<close>

fun restoreLoop :: "node list \<Rightarrow> nat \<Rightarrow> node list \<Rightarrow> node list" where
  "restoreLoop originalChildren i [] = originalChildren"
| "restoreLoop originalChildren i (n # ns) =
     restoreLoop
       (case at originalChildren i of
          Some existing \<Rightarrow>
            if \<not> isEqual n existing then splice originalChildren i 1 [n] else originalChildren
        | None \<Rightarrow> originalChildren @ [n])
       (Suc i) ns"

text \<open>
  The effect. \<open>toSlateValue\<close> is the value mapper, whose source is not part of the files
  at hand: it is a parameter, so that nothing is assumed about the nodes it returns.
\<close>

definition slateValueFromProps :: "(block list \<Rightarrow> node list) \<Rightarrow> block \<Rightarrow> docvalue \<Rightarrow> node list" where
  "slateValueFromProps toSlateValue placeHolder value =
     toSlateValue (getValueOrInitialValue value [placeHolder])"

definition restoreValueFromProps ::
  "(block list \<Rightarrow> node list) \<Rightarrow> block \<Rightarrow> docvalue \<Rightarrow> editable \<Rightarrow> editable" where
  "restoreValueFromProps toSlateValue placeHolder value e =
     (if isComposing e then e
      else
        (let new = slateValueFromProps toSlateValue placeHolder value in
         if truthy value then
           (let originalChildren = restoreLoop (slate_children e) 0 new;
                truncated =
                  (if length originalChildren > length new
                   then splice originalChildren (length new)
                          (int (length (slate_children e)) - int (length new)) []
                   else originalChildren)
            in e\<lparr>slate_children := truncated, onChange_calls := Suc (onChange_calls e)\<rparr>)
         else e\<lparr>slate_children := new, onChange_calls := Suc (onChange_calls e)\<rparr>))"

text \<open>\<^verbatim>\<open>handleOnBeforeInput\<close> sets the composing flag (and restarts the debounced timer).\<close>

definition handleOnBeforeInput :: "editable \<Rightarrow> editable" where
  "handleOnBeforeInput e = e\<lparr>isComposing := True\<rparr>"

subsection \<open>Paste\<close>

text \<open>
  What the then-callback tells apart in the result of the paste handler: a falsy
  result, an \<^verbatim>\<open>Error\<close>, a result with an \<^verbatim>\<open>insert\<close>, anything else.
\<close>

datatype pasteResult = NoResult | ErrorResult | InsertResult "block list" | UnexpectedResult

text \<open>
  What calling the handler does: it throws, it returns a result, or it returns a
  promise that is fulfilled with a result or rejected later.
\<close>

datatype onPasteOutcome = Throws | Returns pasteResult | Resolves pasteResult | Rejects

datatype paste_call =
    OnPaste
  | ResultSettled
  | Loading bool
  | PreventDefault
  | InsertFragment "block list"
  | InsertData
  | ConsoleWarn
  | ConsoleError

text \<open>
  The then-callback: the calls it makes, \<open>Inl\<close> when it ends by throwing. The
  catch-callback.
\<close>

definition thenCallback :: "pasteResult \<Rightarrow> paste_call list + paste_call list" where
  "thenCallback result =
     (case result of
        NoResult \<Rightarrow> Inr [Loading True]
      | ErrorResult \<Rightarrow> Inl [Loading True]
      | InsertResult fragment \<Rightarrow>
          Inr [Loading True, PreventDefault, InsertFragment fragment, Loading False]
      | UnexpectedResult \<Rightarrow> Inr [Loading True, ConsoleWarn])"

definition catchCallback :: "paste_call list" where
  "catchCallback = [Loading False, ConsoleError]"

text \<open>
  \<^verbatim>\<open>Promise.resolve(resolveOnPasteResultOrError())\<close>: a thrown error is caught and returned
  as a value; the promise is fulfilled (\<open>Some\<close>) or rejected (\<open>None\<close>), at once for a
  handler that returns a value, later for one that returns a promise.
\<close>

fun settled :: "onPasteOutcome \<Rightarrow> pasteResult option" where
  "settled Throws = Some ErrorResult"
| "settled (Returns r) = Some r"
| "settled (Resolves r) = Some r"
| "settled Rejects = None"

fun settlesAtOnce :: "onPasteOutcome \<Rightarrow> bool" where
  "settlesAtOnce Throws = True"
| "settlesAtOnce (Returns r) = True"
| "settlesAtOnce _ = False"

text \<open>
  \<^verbatim>\<open>handlePaste\<close>: the calls it makes, in order. The callbacks of the promise run after
  the synchronous part of the handler, which does not return after it has set up the
  promise chain and goes on to the default insertion.
\<close>

definition handlePaste :: "selection option \<Rightarrow> onPasteOutcome option \<Rightarrow> paste_call list" where
  "handlePaste slateSelection onPaste =
     (case slateSelection of
        None \<Rightarrow> []
      | Some sel \<Rightarrow>
          (case onPaste of
             None \<Rightarrow> [PreventDefault, InsertData]
           | Some h \<Rightarrow>
               [OnPaste] @ (if settlesAtOnce h then [ResultSettled] else [])
               @ [PreventDefault, InsertData]
               @ (if settlesAtOnce h then [] else [ResultSettled])
               @ (case settled h of
                    None \<Rightarrow> catchCallback
                  | Some result \<Rightarrow>
                      (case thenCallback result of
                         Inr cs \<Rightarrow> cs
                       | Inl cs \<Rightarrow> cs @ catchCallback))))"

section \<open>Example inputs\<close>

text \<open>The orchestrator as it is mounted, and the same with a block object open.\<close>

definition mounted :: orch where
  "mounted = \<lparr>isActive = False, objectEditData = None, initialSelection = None,
               timeouts = [], calls = []\<rparr>"

definition editingImage :: orch where
  "editingImage = mounted\<lparr>isActive := True,
     objectEditData := Some \<lparr>editorPath = [Key ''b2''], formBuilderPath = [Key ''b2''],
                              kind = blockObject\<rparr>\<rparr>"

text \<open>A text block with one span that carries the link \<open>m1\<close>, and an image block.\<close>

definition linkBlock :: block where
  "linkBlock = \<lparr>block_type = ''block'', block_key = ''b1'', style = Some ''normal'',
     markDefs = Some [\<lparr>markDef_type = ''link'', markDef_key = ''m1''\<rparr>],
     children = Some [\<lparr>child_type = ''span'', child_key = ''s1'', child_text = Some ''hello'',
                        marks = Some [''m1'']\<rparr>]\<rparr>"

definition imageBlock :: block where
  "imageBlock = \<lparr>block_type = ''image'', block_key = ''b2'', style = None,
     markDefs = None, children = None\<rparr>"

text \<open>
  A value mapper that allocates its nodes from address \<open>a\<close> on, and an engine that is
  not composing and holds the given nodes.
\<close>

definition freshNodes :: "nat \<Rightarrow> block list \<Rightarrow> node list" where
  "freshNodes a bs = map (\<lambda>(i, b). \<lparr>ident = i, content = JStr (block_key b)\<rparr>) (enumerate a bs)"

definition engineWith :: "node list \<Rightarrow> editable" where
  "engineWith ns = \<lparr>isComposing = False, slate_children = ns, onChange_calls = 0\<rparr>"

section \<open>What the loop of the restore effect computes\<close>

text \<open>
  Position by position: an existing node that is deeply equal to the new one stays,
  another one gives way to the new node, and the longer list supplies the rest.
\<close>

fun positional :: "node list \<Rightarrow> node list \<Rightarrow> node list" where
  "positional old [] = old"
| "positional [] (n # ns) = n # ns"
| "positional (x # xs) (n # ns) = (if isEqual n x then x else n) # positional xs ns"

lemma splice_replace:
  "i < length xs \<Longrightarrow> splice xs i 1 [n] = take i xs @ n # drop (Suc i) xs"
  by (simp add: splice_def Let_def min_def)

lemma restoreLoop_positional:
  "i \<le> length orig \<Longrightarrow> restoreLoop orig i ns = take i orig @ positional (drop i orig) ns"
proof (induction ns arbitrary: orig i)
  case Nil
  then show ?case by simp
next
  case (Cons n ns)
  show ?case
  proof (cases "i < length orig")
    case True
    then have d: "drop i orig = orig ! i # drop (Suc i) orig"
      by (simp add: Cons_nth_drop_Suc)
    let ?x = "if isEqual n (orig ! i) then orig ! i else n"
    let ?o = "take i orig @ ?x # drop (Suc i) orig"
    have step: "restoreLoop orig i (n # ns) = restoreLoop ?o (Suc i) ns"
      using True by (simp add: at_def splice_replace id_take_nth_drop [symmetric])
    have "restoreLoop ?o (Suc i) ns = take (Suc i) ?o @ positional (drop (Suc i) ?o) ns"
      using True by (intro Cons.IH) simp
    also have "take (Suc i) ?o = take i orig @ [?x]"
      using True by (simp add: take_Suc_conv_app_nth nth_append)
    also have "drop (Suc i) ?o = drop (Suc i) orig"
      using True by simp
    finally show ?thesis using step d by simp
  next
    case False
    with Cons.prems have i: "i = length orig" by simp
    have "restoreLoop orig i (n # ns) = restoreLoop (orig @ [n]) (Suc i) ns"
      using i by (simp add: at_def)
    also have "\<dots> = take (Suc i) (orig @ [n]) @ positional (drop (Suc i) (orig @ [n])) ns"
      using i by (intro Cons.IH) simp
    finally show ?thesis using i by (cases ns) simp_all
  qed
qed

lemma length_positional: "length (positional old new) = max (length old) (length new)"
  by (induction old new rule: positional.induct) auto

lemma nth_positional_both:
  "i < length old \<Longrightarrow> i < length new \<Longrightarrow>
   positional old new ! i = (if isEqual (new ! i) (old ! i) then old ! i else new ! i)"
proof (induction old new arbitrary: i rule: positional.induct)
  case (3 x xs n ns)
  then show ?case by (cases i) auto
qed simp_all

lemma nth_positional_new:
  "length old \<le> i \<Longrightarrow> i < length new \<Longrightarrow> positional old new ! i = new ! i"
proof (induction old new arbitrary: i rule: positional.induct)
  case (3 x xs n ns)
  then show ?case by (cases i) auto
qed simp_all

lemma positional_same:
  "length r = length new \<Longrightarrow> (\<And>i. i < length new \<Longrightarrow> isEqual (new ! i) (r ! i))
   \<Longrightarrow> positional r new = r"
proof (induction r new rule: positional.induct)
  case (3 x xs n ns)
  have "isEqual n x" using "3.prems"(2) [of 0] by simp
  moreover have "positional xs ns = xs"
  proof (rule "3.IH")
    show "length xs = length ns" using "3.prems"(1) by simp
    fix i assume "i < length ns"
    then show "isEqual (ns ! i) (xs ! i)" using "3.prems"(2) [of "Suc i"] by simp
  qed
  ultimately show ?case by simp
qed simp_all

text \<open>The truncation after the loop cuts the list to the new length.\<close>

lemma truncate_splice:
  assumes "length xs = max m k"
  shows "(if length xs > k then splice xs k (int m - int k) [] else xs) = take k xs"
proof (cases "k < m")
  case True
  then have "nat (max 0 (int m - int k)) = m - k" by simp
  then show ?thesis using True assms by (simp add: splice_def Let_def)
next
  case False
  then show ?thesis using assms by simp
qed

lemma restored_children:
  assumes "\<not> isComposing e" and "truthy value"
  shows "slate_children (restoreValueFromProps ts ph value e)
     = take (length (slateValueFromProps ts ph value))
         (positional (slate_children e) (slateValueFromProps ts ph value))"
proof -
  let ?new = "slateValueFromProps ts ph value"
  let ?old = "slate_children e"
  have loop: "restoreLoop ?old 0 ?new = positional ?old ?new"
    by (simp add: restoreLoop_positional)
  have "(if length (positional ?old ?new) > length ?new
         then splice (positional ?old ?new) (length ?new) (int (length ?old) - int (length ?new)) []
         else positional ?old ?new) = take (length ?new) (positional ?old ?new)"
    by (rule truncate_splice) (simp add: length_positional)
  then show ?thesis using assms loop
    by (auto simp: restoreValueFromProps_def Let_def split: if_splits)
qed

lemma restored_nth:
  assumes "\<not> isComposing e" and "truthy value" and "i < length (slateValueFromProps ts ph value)"
  shows "slate_children (restoreValueFromProps ts ph value e) ! i
     = (if i < length (slate_children e)
        then (if isEqual (slateValueFromProps ts ph value ! i) (slate_children e ! i)
              then slate_children e ! i else slateValueFromProps ts ph value ! i)
        else slateValueFromProps ts ph value ! i)"
  using assms by (simp add: restored_children nth_positional_both nth_positional_new)

lemma restored_length:
  assumes "\<not> isComposing e"
  shows "length (slate_children (restoreValueFromProps ts ph value e))
     = length (slateValueFromProps ts ph value)"
proof (cases "truthy value")
  case True
  then show ?thesis using assms by (simp add: restored_children length_positional)
next
  case False
  then show ?thesis using assms by (simp add: restoreValueFromProps_def Let_def)
qed

lemma restored_falsy:
  "\<not> isComposing e \<Longrightarrow> \<not> truthy value \<Longrightarrow>
   slate_children (restoreValueFromProps ts ph value e) = slateValueFromProps ts ph value"
  by (simp add: restoreValueFromProps_def Let_def)

lemma restored_content:
  assumes "\<not> isComposing e" and "truthy value" and "i < length (slateValueFromProps ts ph value)"
  shows "content (slate_children (restoreValueFromProps ts ph value e) ! i)
     = content (slateValueFromProps ts ph value ! i)"
  using assms by (simp add: restored_nth isEqual_def)


lemma prefixedEvent_patches:
  "patches (prefixedEvent ev p) = map (\<lambda>q. q\<lparr>patch_path := p @ patch_path q\<rparr>) (patches ev)"
proof (induction p arbitrary: ev)
  case Nil
  show ?case by (simp add: prefixedEvent_def)
next
  case (Cons seg p)
  have "prefixedEvent ev (seg # p) = prefixAll seg (prefixedEvent ev p)"
    by (simp add: prefixedEvent_def)
  then show ?case using Cons.IH [of ev]
    by (simp add: prefixAll_def comp_def)
qed

section \<open>The orchestrator's transitions\<close>




text \<open>
  C2, as the code has it. While no object is being edited, a focus path of more than
  one segment whose first segment is the keyed segment of \<open>bk\<close> and whose second
  segment is neither \<^verbatim>\<open>'children'\<close> nor \<^verbatim>\<open>'markDefs'\<close> makes the orchestrator active and
  selects the collapsed selection at \<^verbatim>\<open>[{_key: bk}]\<close> at once, with \<^verbatim>\<open>objectEditData\<close>
  still unset; after the tick \<^verbatim>\<open>objectEditData\<close> has the kind block object, with
  \<^verbatim>\<open>[{_key: bk}]\<close> as editor path and form-builder path.
\<close>

theorem block_focus_defers_open:
  assumes closed: "objectEditData s = None"
    and k0: "at fp 0 = Some (Key bk)" and len: "length fp > 1"
    and nc: "at fp 1 \<noteq> Some (Name ''children'')" and nm: "at fp 1 \<noteq> Some (Name ''markDefs'')"
  shows "\<exists>s'. focusPathEffect (Some fp) v s = Inr s'
     \<and> isActive s' \<and> objectEditData s' = None
     \<and> calls s' = calls s @ [SetPopupReferenceElement (Some bk), EditorSelect (collapsedAt [Key bk])]
     \<and> objectEditData (tick s')
         = Some \<lparr>editorPath = [Key bk], formBuilderPath = [Key bk], kind = blockObject\<rparr>"
proof -
  from k0 have fp: "take (Suc 0) fp = [Key bk]"
    by (cases fp) (auto simp: at_def split: if_splits)
  have "focusPathEffect (Some fp) v s = Inr (blockFocus fp s)"
    using closed nm by (simp add: focusPathEffect_def)
  moreover have "blockFocus fp s = s\<lparr>isActive := True,
       timeouts := timeouts s @ [\<lparr>editorPath = [Key bk], formBuilderPath = [Key bk], kind = blockObject\<rparr>],
       calls := calls s @ [SetPopupReferenceElement (Some bk), EditorSelect (collapsedAt [Key bk])]\<rparr>"
    using nc len fp by (simp add: blockFocus_def slice_def last_segment_def Let_def)
  ultimately show ?thesis using closed by (simp add: tick_def)
qed

theorem block_focus_defers_open_witness:
  "objectEditData mounted = None
   \<and> at [Key ''b2'', Name ''caption''] 0 = Some (Key ''b2'')
   \<and> length [Key ''b2'', Name ''caption''] > 1
   \<and> at [Key ''b2'', Name ''caption''] 1 \<noteq> Some (Name ''children'')
   \<and> at [Key ''b2'', Name ''caption''] 1 \<noteq> Some (Name ''markDefs'')
   \<and> (\<exists>s'. focusPathEffect (Some [Key ''b2'', Name ''caption'']) (Some [linkBlock, imageBlock]) mounted
             = Inr s'
        \<and> isActive s' \<and> objectEditData s' = None
        \<and> calls s' = [SetPopupReferenceElement (Some ''b2''), EditorSelect (collapsedAt [Key ''b2''])]
        \<and> objectEditData (tick s')
            = Some \<lparr>editorPath = [Key ''b2''], formBuilderPath = [Key ''b2''], kind = blockObject\<rparr>)"
  using block_focus_defers_open [of mounted "[Key ''b2'', Name ''caption'']" "''b2''"
    "Some [linkBlock, imageBlock]"]
  by (simp add: at_def mounted_def)

text \<open>
  C2 as it is stated fails: for the one-segment focus path \<^verbatim>\<open>[{_key: 'b2'}]\<close> of the
  image block, with no object being edited, the effect does nothing. No selection is
  made, and \<^verbatim>\<open>objectEditData\<close> is unset after the tick as before it.
\<close>

theorem single_segment_focus_counterexample:
  "objectEditData mounted = None
   \<and> imageBlock \<in> set [linkBlock, imageBlock] \<and> block_key imageBlock = ''b2''
   \<and> block_type imageBlock \<noteq> ''block''
   \<and> focusPathEffect (Some [Key ''b2'']) (Some [linkBlock, imageBlock]) mounted = Inr mounted
   \<and> calls mounted = []
   \<and> objectEditData (tick mounted) = None"
  by (simp add: at_def imageBlock_def focusPathEffect_def blockFocus_def tick_def mounted_def)



text \<open>
  C7. The change proxy puts the segments of the object path in front of the event, the
  last segment first, so every patch is forwarded with the object path, in its own
  order, in front of its local path; the patches go to \<^verbatim>\<open>patche$\<close> and the prefixed event
  goes to \<^verbatim>\<open>onChange\<close> once. A patch \<^verbatim>\<open>{path: [], type: 'set', value: x}\<close> for the object at
  \<^verbatim>\<open>[{_key: blockKey}, 'children', {_key: childKey}]\<close> is forwarded with that path.
\<close>

theorem change_proxy_prefixes:
  "prefixedEvent ev p = foldl (\<lambda>e seg. prefixAll seg e) ev (rev p)
   \<and> patches (prefixedEvent ev p) = map (\<lambda>q. q\<lparr>patch_path := p @ patch_path q\<rparr>) (patches ev)
   \<and> calls (handleFormBuilderEditObjectChange ev p s)
       = calls s @ map PatcheNext (patches (prefixedEvent ev p)) @ [OnChange (prefixedEvent ev p)]
   \<and> prefixedEvent \<lparr>patches = [\<lparr>patch_path = [], patch_type = ''set'', patch_value = Some x\<rparr>]\<rparr>
         [Key blockKey, Name ''children'', Key childKey]
       = \<lparr>patches = [\<lparr>patch_path = [Key blockKey, Name ''children'', Key childKey],
                       patch_type = ''set'', patch_value = Some x\<rparr>]\<rparr>"
proof (intro conjI)
  show "prefixedEvent ev p = foldl (\<lambda>e seg. prefixAll seg e) ev (rev p)"
    by (simp add: prefixedEvent_def)
  show "patches (prefixedEvent ev p) = map (\<lambda>q. q\<lparr>patch_path := p @ patch_path q\<rparr>) (patches ev)"
    by (rule prefixedEvent_patches)
  show "calls (handleFormBuilderEditObjectChange ev p s)
       = calls s @ map PatcheNext (patches (prefixedEvent ev p)) @ [OnChange (prefixedEvent ev p)]"
    by (simp add: handleFormBuilderEditObjectChange_def Let_def)
  show "prefixedEvent \<lparr>patches = [\<lparr>patch_path = [], patch_type = ''set'', patch_value = Some x\<rparr>]\<rparr>
         [Key blockKey, Name ''children'', Key childKey]
       = \<lparr>patches = [\<lparr>patch_path = [Key blockKey, Name ''children'', Key childKey],
                       patch_type = ''set'', patch_value = Some x\<rparr>]\<rparr>"
    by (simp add: prefixedEvent_def prefixAll_def)
qed

text \<open>
  C10. The selection effect makes no call, so it emits no external focus event, when
  the selection is not collapsed (anchor and focus differ in path or in offset), when
  an object is being edited, when the second segment of the current focus path is
  \<^verbatim>\<open>'markDefs'\<close>, and when the focus path of the selection is the current focus path
  already.
\<close>

theorem selection_effect_silent:
  "(sel = Some sl \<and> (path (anchor sl) \<noteq> path (focus sl) \<or> offset (anchor sl) \<noteq> offset (focus sl))
      \<longrightarrow> calls (selectionEffect focusPath sel s) = calls s)
   \<and> (objectEditData s \<noteq> None \<longrightarrow> calls (selectionEffect focusPath sel s) = calls s)
   \<and> (focusPath = Some fp \<and> at fp 1 = Some (Name ''markDefs'')
      \<longrightarrow> calls (selectionEffect focusPath sel s) = calls s)
   \<and> (sel = Some sl \<and> focusPath = Some (path (focus sl))
      \<longrightarrow> calls (selectionEffect focusPath sel s) = calls s)"
  by (auto simp: selectionEffect_def Let_def split: option.splits)

theorem selection_effect_silent_witness:
  "offset (anchor \<lparr>focus = \<lparr>path = [Key ''b1'', Name ''children'', Key ''s1''], offset = 3\<rparr>,
                   anchor = \<lparr>path = [Key ''b1'', Name ''children'', Key ''s1''], offset = 0\<rparr>\<rparr>)
     \<noteq> offset (focus \<lparr>focus = \<lparr>path = [Key ''b1'', Name ''children'', Key ''s1''], offset = 3\<rparr>,
                   anchor = \<lparr>path = [Key ''b1'', Name ''children'', Key ''s1''], offset = 0\<rparr>\<rparr>)
   \<and> calls (selectionEffect (Some [Key ''b2''])
        (Some \<lparr>focus = \<lparr>path = [Key ''b1'', Name ''children'', Key ''s1''], offset = 3\<rparr>,
               anchor = \<lparr>path = [Key ''b1'', Name ''children'', Key ''s1''], offset = 0\<rparr>\<rparr>) mounted)
       = calls mounted
   \<and> objectEditData editingImage \<noteq> None
   \<and> calls (selectionEffect (Some [Key ''b1''])
        (Some (collapsedAt [Key ''b1'', Name ''children'', Key ''s1''])) editingImage)
       = calls editingImage
   \<and> at [Key ''b1'', Name ''markDefs'', Key ''m1''] 1 = Some (Name ''markDefs'')
   \<and> calls (selectionEffect (Some [Key ''b1'', Name ''markDefs'', Key ''m1''])
        (Some (collapsedAt [Key ''b1'', Name ''children'', Key ''s1''])) mounted)
       = calls mounted
   \<and> Some [Key ''b2''] = Some (path (focus (collapsedAt [Key ''b2''])))
   \<and> calls (selectionEffect (Some [Key ''b2'']) (Some (collapsedAt [Key ''b2''])) mounted)
       = calls mounted"
proof -
  let ?range = "\<lparr>focus = \<lparr>path = [Key ''b1'', Name ''children'', Key ''s1''], offset = 3\<rparr>,
                 anchor = \<lparr>path = [Key ''b1'', Name ''children'', Key ''s1''], offset = 0\<rparr>\<rparr>"
  let ?caret = "collapsedAt [Key ''b1'', Name ''children'', Key ''s1'']"
  have a: "offset (anchor ?range) \<noteq> offset (focus ?range)" by simp
  have 1: "calls (selectionEffect (Some [Key ''b2'']) (Some ?range) mounted) = calls mounted"
    using selection_effect_silent [of "Some ?range" ?range "Some [Key ''b2'']" mounted] a by blast
  have b: "objectEditData editingImage \<noteq> None" by (simp add: editingImage_def)
  have 2: "calls (selectionEffect (Some [Key ''b1'']) (Some ?caret) editingImage) = calls editingImage"
    using selection_effect_silent [of "Some ?caret" ?caret "Some [Key ''b1'']" editingImage] b by blast
  have c: "at [Key ''b1'', Name ''markDefs'', Key ''m1''] 1 = Some (Name ''markDefs'')"
    by (simp add: at_def)
  have 3: "calls (selectionEffect (Some [Key ''b1'', Name ''markDefs'', Key ''m1'']) (Some ?caret) mounted)
      = calls mounted"
    using selection_effect_silent [of "Some ?caret" ?caret "Some [Key ''b1'', Name ''markDefs'', Key ''m1'']"
      mounted "[Key ''b1'', Name ''markDefs'', Key ''m1'']"] c by blast
  have d: "Some [Key ''b2''] = Some (path (focus (collapsedAt [Key ''b2''])))"
    by (simp add: collapsedAt_def)
  have 4: "calls (selectionEffect (Some [Key ''b2'']) (Some (collapsedAt [Key ''b2''])) mounted)
      = calls mounted"
    using selection_effect_silent [of "Some (collapsedAt [Key ''b2''])" "collapsedAt [Key ''b2'']"
      "Some [Key ''b2'']" mounted] d by blast
  show ?thesis using a 1 b 2 c 3 d 4 by blast
qed

section \<open>The value restored from props\<close>

text \<open>
  C3. When the engine is not composing, the children after the restore effect relate
  to the old children and to the mapped new nodes position by position: where an
  existing node is not deeply equal to the new node at its index, the new node stands
  in its place; at every index beyond the old length stands the new node; and when the
  new list is shorter, the children are cut to its length. For a truthy value, an
  existing node that is deeply equal to the new one at its index stays the node it was.
\<close>

theorem restore_is_positional:
  assumes nc: "\<not> isComposing e"
  shows "(\<forall>i. i < length (slate_children e) \<and> i < length (slateValueFromProps ts ph value)
            \<and> \<not> isEqual (slateValueFromProps ts ph value ! i) (slate_children e ! i)
          \<longrightarrow> slate_children (restoreValueFromProps ts ph value e) ! i
                = slateValueFromProps ts ph value ! i)
     \<and> (\<forall>i. length (slate_children e) \<le> i \<and> i < length (slateValueFromProps ts ph value)
          \<longrightarrow> slate_children (restoreValueFromProps ts ph value e) ! i
                = slateValueFromProps ts ph value ! i)
     \<and> (length (slateValueFromProps ts ph value) < length (slate_children e)
          \<longrightarrow> length (slate_children (restoreValueFromProps ts ph value e))
                = length (slateValueFromProps ts ph value))
     \<and> (truthy value \<longrightarrow>
          (\<forall>i. i < length (slate_children e) \<and> i < length (slateValueFromProps ts ph value)
              \<and> isEqual (slateValueFromProps ts ph value ! i) (slate_children e ! i)
            \<longrightarrow> slate_children (restoreValueFromProps ts ph value e) ! i = slate_children e ! i))"
proof (cases "truthy value")
  case True
  show ?thesis using nc True by (simp add: restored_nth restored_length)
next
  case False
  show ?thesis using nc False by (simp add: restored_falsy)
qed

theorem restore_is_positional_witness:
  "\<not> isComposing (engineWith [\<lparr>ident = 1, content = JStr ''b1''\<rparr>, \<lparr>ident = 2, content = JStr ''old''\<rparr>,
                                \<lparr>ident = 3, content = JStr ''b3''\<rparr>])
   \<and> slate_children (restoreValueFromProps (freshNodes 10) (placeHolderBlock ''block'' ''normal'' ''k1'' ''k2'')
        (Blocks [linkBlock, imageBlock])
        (engineWith [\<lparr>ident = 1, content = JStr ''b1''\<rparr>, \<lparr>ident = 2, content = JStr ''old''\<rparr>,
                     \<lparr>ident = 3, content = JStr ''b3''\<rparr>])) ! 1 = \<lparr>ident = 11, content = JStr ''b2''\<rparr>
   \<and> slate_children (restoreValueFromProps (freshNodes 10) (placeHolderBlock ''block'' ''normal'' ''k1'' ''k2'')
        (Blocks [linkBlock, imageBlock])
        (engineWith [\<lparr>ident = 1, content = JStr ''b1''\<rparr>, \<lparr>ident = 2, content = JStr ''old''\<rparr>,
                     \<lparr>ident = 3, content = JStr ''b3''\<rparr>])) ! 0 = \<lparr>ident = 1, content = JStr ''b1''\<rparr>
   \<and> length (slate_children (restoreValueFromProps (freshNodes 10) (placeHolderBlock ''block'' ''normal'' ''k1'' ''k2'')
        (Blocks [linkBlock, imageBlock])
        (engineWith [\<lparr>ident = 1, content = JStr ''b1''\<rparr>, \<lparr>ident = 2, content = JStr ''old''\<rparr>,
                     \<lparr>ident = 3, content = JStr ''b3''\<rparr>]))) = 2
   \<and> slate_children (restoreValueFromProps (freshNodes 10) (placeHolderBlock ''block'' ''normal'' ''k1'' ''k2'')
        (Blocks [linkBlock, imageBlock]) (engineWith [\<lparr>ident = 1, content = JStr ''b1''\<rparr>])) ! 1
       = \<lparr>ident = 11, content = JStr ''b2''\<rparr>"
proof -
  let ?ph = "placeHolderBlock ''block'' ''normal'' ''k1'' ''k2''"
  let ?long = "engineWith [\<lparr>ident = 1, content = JStr ''b1''\<rparr>, \<lparr>ident = 2, content = JStr ''old''\<rparr>,
                     \<lparr>ident = 3, content = JStr ''b3''\<rparr>]"
  let ?short = "engineWith [\<lparr>ident = 1, content = JStr ''b1''\<rparr>]"
  have new: "slateValueFromProps (freshNodes 10) ?ph (Blocks [linkBlock, imageBlock])
      = [\<lparr>ident = 10, content = JStr ''b1''\<rparr>, \<lparr>ident = 11, content = JStr ''b2''\<rparr>]"
    by (simp add: slateValueFromProps_def getValueOrInitialValue_def freshNodes_def
        linkBlock_def imageBlock_def)
  have l: "\<not> isComposing ?long" and s: "\<not> isComposing ?short"
    by (simp_all add: engineWith_def)
  note L = restore_is_positional [OF l, of "freshNodes 10" ?ph "Blocks [linkBlock, imageBlock]"]
  note S = restore_is_positional [OF s, of "freshNodes 10" ?ph "Blocks [linkBlock, imageBlock]"]
  have 1: "slate_children (restoreValueFromProps (freshNodes 10) ?ph (Blocks [linkBlock, imageBlock]) ?long) ! 1
      = \<lparr>ident = 11, content = JStr ''b2''\<rparr>"
    using L [THEN conjunct1, rule_format, of 1] by (simp add: new engineWith_def isEqual_def)
  have 0: "slate_children (restoreValueFromProps (freshNodes 10) ?ph (Blocks [linkBlock, imageBlock]) ?long) ! 0
      = \<lparr>ident = 1, content = JStr ''b1''\<rparr>"
    using L [THEN conjunct2, THEN conjunct2, THEN conjunct2, rule_format, of 0]
    by (simp add: new engineWith_def isEqual_def)
  have 2: "length (slate_children (restoreValueFromProps (freshNodes 10) ?ph (Blocks [linkBlock, imageBlock]) ?long)) = 2"
    using L [THEN conjunct2, THEN conjunct2, THEN conjunct1] by (simp add: new engineWith_def)
  have 3: "slate_children (restoreValueFromProps (freshNodes 10) ?ph (Blocks [linkBlock, imageBlock]) ?short) ! 1
      = \<lparr>ident = 11, content = JStr ''b2''\<rparr>"
    using S [THEN conjunct2, THEN conjunct1, rule_format, of 1] by (simp add: new engineWith_def)
  show ?thesis using l 0 1 2 3 by blast
qed

text \<open>
  C4. A before-input event sets the composing flag. While the flag is set, the restore
  effect leaves the children of the engine as they are, whatever value arrives, and it
  leaves the flag set.
\<close>

theorem composing_guard:
  "isComposing (handleOnBeforeInput e0)
   \<and> (isComposing e \<longrightarrow>
        slate_children (restoreValueFromProps ts ph value e) = slate_children e
        \<and> isComposing (restoreValueFromProps ts ph value e))"
  by (simp add: handleOnBeforeInput_def restoreValueFromProps_def)

theorem composing_guard_witness:
  "isComposing (handleOnBeforeInput (engineWith [\<lparr>ident = 1, content = JStr ''b1''\<rparr>]))
   \<and> slate_children (restoreValueFromProps (freshNodes 10) (placeHolderBlock ''block'' ''normal'' ''k1'' ''k2'')
        (Blocks [imageBlock]) (handleOnBeforeInput (engineWith [\<lparr>ident = 1, content = JStr ''b1''\<rparr>])))
       = [\<lparr>ident = 1, content = JStr ''b1''\<rparr>]"
  using composing_guard [of "engineWith [\<lparr>ident = 1, content = JStr ''b1''\<rparr>]"
    "handleOnBeforeInput (engineWith [\<lparr>ident = 1, content = JStr ''b1''\<rparr>])"
    "freshNodes 10" "placeHolderBlock ''block'' ''normal'' ''k1'' ''k2''" "Blocks [imageBlock]"]
  by (simp add: handleOnBeforeInput_def engineWith_def)

text \<open>
  C5. The restore effect runs twice with the same array of blocks; the value mapper may
  return other objects the second time, with the same contents. After the second run
  the children are the very nodes that the first run left. When the engine is not
  composing, the loop of the second run returns the list it was given (nothing is
  replaced or appended), and the list is not longer than the new one (nothing is cut).
\<close>

theorem restore_twice_same:
  assumes same: "map content (ts2 (getValueOrInitialValue (Blocks bs) [ph]))
               = map content (ts1 (getValueOrInitialValue (Blocks bs) [ph]))"
  shows "slate_children (restoreValueFromProps ts2 ph (Blocks bs) (restoreValueFromProps ts1 ph (Blocks bs) e))
       = slate_children (restoreValueFromProps ts1 ph (Blocks bs) e)
     \<and> (\<not> isComposing e \<longrightarrow>
          restoreLoop (slate_children (restoreValueFromProps ts1 ph (Blocks bs) e)) 0
              (slateValueFromProps ts2 ph (Blocks bs))
            = slate_children (restoreValueFromProps ts1 ph (Blocks bs) e)
          \<and> \<not> length (slate_children (restoreValueFromProps ts1 ph (Blocks bs) e))
                > length (slateValueFromProps ts2 ph (Blocks bs)))"
proof (cases "isComposing e")
  case True
  then show ?thesis by (simp add: restoreValueFromProps_def)
next
  case False
  let ?v = "Blocks bs"
  let ?new1 = "slateValueFromProps ts1 ph ?v" and ?new2 = "slateValueFromProps ts2 ph ?v"
  let ?e1 = "restoreValueFromProps ts1 ph ?v e"
  let ?r1 = "slate_children ?e1"
  have c: "map content ?new2 = map content ?new1"
    using same by (simp add: slateValueFromProps_def)
  then have len: "length ?new2 = length ?new1"
    using map_eq_imp_length_eq by blast
  have lr: "length ?r1 = length ?new2"
    using False len by (simp add: restored_length)
  have nc1: "\<not> isComposing ?e1"
    using False by (simp add: restoreValueFromProps_def Let_def)
  have eq: "isEqual (?new2 ! i) (?r1 ! i)" if "i < length ?new2" for i
  proof -
    have "content (?new2 ! i) = content (?new1 ! i)"
      using that c len by (metis nth_map)
    moreover have "content (?r1 ! i) = content (?new1 ! i)"
      using False that len by (simp add: restored_content)
    ultimately show ?thesis by (simp add: isEqual_def)
  qed
  have same_pos: "positional ?r1 ?new2 = ?r1"
    using lr eq by (rule positional_same)
  then have loop: "restoreLoop ?r1 0 ?new2 = ?r1"
    by (simp add: restoreLoop_positional)
  have "slate_children (restoreValueFromProps ts2 ph ?v ?e1) = take (length ?new2) (positional ?r1 ?new2)"
    using nc1 by (simp add: restored_children)
  then have "slate_children (restoreValueFromProps ts2 ph ?v ?e1) = ?r1"
    using same_pos lr by simp
  then show ?thesis using loop lr by simp
qed

theorem restore_twice_same_witness:
  "map content (freshNodes 20 (getValueOrInitialValue (Blocks [linkBlock, imageBlock])
        [placeHolderBlock ''block'' ''normal'' ''k1'' ''k2'']))
     = map content (freshNodes 10 (getValueOrInitialValue (Blocks [linkBlock, imageBlock])
        [placeHolderBlock ''block'' ''normal'' ''k1'' ''k2'']))
   \<and> slate_children (restoreValueFromProps (freshNodes 10) (placeHolderBlock ''block'' ''normal'' ''k1'' ''k2'')
        (Blocks [linkBlock, imageBlock])
        (engineWith [\<lparr>ident = 1, content = JStr ''b1''\<rparr>, \<lparr>ident = 2, content = JStr ''old''\<rparr>,
                     \<lparr>ident = 3, content = JStr ''b3''\<rparr>]))
       = [\<lparr>ident = 1, content = JStr ''b1''\<rparr>, \<lparr>ident = 11, content = JStr ''b2''\<rparr>]
   \<and> slate_children (restoreValueFromProps (freshNodes 20) (placeHolderBlock ''block'' ''normal'' ''k1'' ''k2'')
        (Blocks [linkBlock, imageBlock])
        (restoreValueFromProps (freshNodes 10) (placeHolderBlock ''block'' ''normal'' ''k1'' ''k2'')
          (Blocks [linkBlock, imageBlock])
          (engineWith [\<lparr>ident = 1, content = JStr ''b1''\<rparr>, \<lparr>ident = 2, content = JStr ''old''\<rparr>,
                       \<lparr>ident = 3, content = JStr ''b3''\<rparr>])))
       = [\<lparr>ident = 1, content = JStr ''b1''\<rparr>, \<lparr>ident = 11, content = JStr ''b2''\<rparr>]"
proof -
  let ?ph = "placeHolderBlock ''block'' ''normal'' ''k1'' ''k2''"
  let ?e = "engineWith [\<lparr>ident = 1, content = JStr ''b1''\<rparr>, \<lparr>ident = 2, content = JStr ''old''\<rparr>,
                     \<lparr>ident = 3, content = JStr ''b3''\<rparr>]"
  let ?v = "Blocks [linkBlock, imageBlock]"
  have h: "map content (freshNodes 20 (getValueOrInitialValue ?v [?ph]))
         = map content (freshNodes 10 (getValueOrInitialValue ?v [?ph]))"
    by (simp add: getValueOrInitialValue_def freshNodes_def)
  have first: "slate_children (restoreValueFromProps (freshNodes 10) ?ph ?v ?e)
       = [\<lparr>ident = 1, content = JStr ''b1''\<rparr>, \<lparr>ident = 11, content = JStr ''b2''\<rparr>]"
    by (simp add: restoreValueFromProps_def slateValueFromProps_def getValueOrInitialValue_def
        freshNodes_def linkBlock_def imageBlock_def engineWith_def at_def splice_def isEqual_def
        Let_def)
  show ?thesis
    using h first
      restore_twice_same [of "freshNodes 20" "[linkBlock, imageBlock]" ?ph "freshNodes 10" ?e]
    by simp
qed

text \<open>
  C9. For a value that is \<^verbatim>\<open>undefined\<close>, not an array, or an empty array, what is handed
  to the value mapper is the list of one block, the placeholder: a block of the text
  block type whose children are one span with the empty string as text and no marks.
\<close>

theorem placeholder_for_empty_value:
  "getValueOrInitialValue Undefined [placeHolderBlock t s k1 k2] = [placeHolderBlock t s k1 k2]
   \<and> getValueOrInitialValue (NonArray b) [placeHolderBlock t s k1 k2] = [placeHolderBlock t s k1 k2]
   \<and> getValueOrInitialValue (Blocks []) [placeHolderBlock t s k1 k2] = [placeHolderBlock t s k1 k2]
   \<and> slateValueFromProps ts (placeHolderBlock t s k1 k2) Undefined = ts [placeHolderBlock t s k1 k2]
   \<and> slateValueFromProps ts (placeHolderBlock t s k1 k2) (NonArray b) = ts [placeHolderBlock t s k1 k2]
   \<and> slateValueFromProps ts (placeHolderBlock t s k1 k2) (Blocks []) = ts [placeHolderBlock t s k1 k2]
   \<and> children (placeHolderBlock t s k1 k2)
       = Some [\<lparr>child_type = ''span'', child_key = k2, child_text = Some '''', marks = Some []\<rparr>]
   \<and> block_type (placeHolderBlock t s k1 k2) = t"
  by (simp add: getValueOrInitialValue_def slateValueFromProps_def placeHolderBlock_def)

section \<open>Paste\<close>

text \<open>
  C8 at a paste handler that gives no result, with a selection in the engine. The
  loading signal with \<open>True\<close> comes after the result has settled, not before, and no
  loading signal with \<open>False\<close> follows it; this holds for a handler that returns
  \<^verbatim>\<open>undefined\<close> and for one whose promise is fulfilled with \<^verbatim>\<open>undefined\<close>.
\<close>

theorem paste_without_result_keeps_loading:
  "handlePaste (Some sel) (Some (Returns NoResult))
     = [OnPaste, ResultSettled, PreventDefault, InsertData, Loading True]
   \<and> handlePaste (Some sel) (Some (Resolves NoResult))
     = [OnPaste, PreventDefault, InsertData, ResultSettled, Loading True]"
  by (simp add: handlePaste_def thenCallback_def)

end
